theory Spec2Isabelle
  imports Complex_Main "HOL-Library.Sublist"
begin

section \<open>Values of the request: parsed JSON as Python sees it\<close>

text \<open>
  The server works on \<^verbatim>\<open>request.json\<close>: dictionaries, lists, strings, numbers,
  booleans and \<^verbatim>\<open>None\<close>. A dictionary is an association list read with
  \<open>map_of\<close>. A Python float is idealised as a real number (no NaN, no infinities, no
  rounding error); an int is unbounded.
\<close>

datatype pynum = PyInt int | PyFloat real

fun num_val :: "pynum \<Rightarrow> real" where
  "num_val (PyInt i) = of_int i"
| "num_val (PyFloat x) = x"

datatype pyval =
    PNone
  | PBool bool
  | PNum pynum
  | PStr string
  | PList "pyval list"
  | PDict "(string \<times> pyval) list"

type_synonym pydict = "(string \<times> pyval) list"

datatype py_error = AttributeError | TypeError | ValueError | IndexError | ModelError

text \<open>\<^verbatim>\<open>d.get(k)\<close> and \<^verbatim>\<open>d.get(k, default)\<close> on a dictionary.\<close>

definition dget :: "pydict \<Rightarrow> string \<Rightarrow> pyval" where
  "dget d k = (case map_of d k of None \<Rightarrow> PNone | Some v \<Rightarrow> v)"

definition dget_default :: "pydict \<Rightarrow> string \<Rightarrow> pyval \<Rightarrow> pyval" where
  "dget_default d k dflt = (case map_of d k of None \<Rightarrow> dflt | Some v \<Rightarrow> v)"

text \<open>
  \<^verbatim>\<open>x.get(...)\<close> on a value that may not be a dictionary: every JSON value other than
  an object has no attribute \<^verbatim>\<open>get\<close>.
\<close>

definition as_dict :: "pyval \<Rightarrow> py_error + pydict" where
  "as_dict v = (case v of PDict d \<Rightarrow> Inr d | _ \<Rightarrow> Inl AttributeError)"

text \<open>Truth value of a Python object, as \<^verbatim>\<open>if x:\<close> tests it.\<close>

fun truthy :: "pyval \<Rightarrow> bool" where
  "truthy PNone = False"
| "truthy (PBool b) = b"
| "truthy (PNum n) = (num_val n \<noteq> 0)"
| "truthy (PStr s) = (s \<noteq> [])"
| "truthy (PList xs) = (xs \<noteq> [])"
| "truthy (PDict d) = (d \<noteq> [])"

text \<open>
  \<^verbatim>\<open>x == s\<close> and \<^verbatim>\<open>x in [s1, ..., sn]\<close> for strings \<open>s\<close>: among JSON values only
  an equal string compares equal to a string.
\<close>

fun eq_str :: "pyval \<Rightarrow> string \<Rightarrow> bool" where
  "eq_str (PStr t) s = (t = s)"
| "eq_str _ s = False"

definition in_strs :: "pyval \<Rightarrow> string list \<Rightarrow> bool" where
  "in_strs v ss = list_ex (eq_str v) ss"

section \<open>Blood type compatibility\<close>

text \<open>\<^verbatim>\<open>BLOOD_COMPATIBILITY\<close>: for each donor type, the recipient types it can serve.\<close>

definition BLOOD_COMPATIBILITY :: "(string \<times> string list) list" where
  "BLOOD_COMPATIBILITY =
    [(''O-'', [''O-'', ''O+'', ''A-'', ''A+'', ''B-'', ''B+'', ''AB-'', ''AB+'']),
     (''O+'', [''O+'', ''A+'', ''B+'', ''AB+'']),
     (''A-'', [''A-'', ''A+'', ''AB-'', ''AB+'']),
     (''A+'', [''A+'', ''AB+'']),
     (''B-'', [''B-'', ''B+'', ''AB-'', ''AB+'']),
     (''B+'', [''B+'', ''AB+'']),
     (''AB-'', [''AB-'', ''AB+'']),
     (''AB+'', [''AB+''])]"

definition get_compatible_donor_types :: "pyval \<Rightarrow> string list" where
  "get_compatible_donor_types recipient_blood_type =
     map fst (filter (\<lambda>(donor_type, can_donate_to). in_strs recipient_blood_type can_donate_to)
                BLOOD_COMPATIBILITY)"

subsection \<open>The classical ABO/Rh rule, stated independently of the table\<close>

text \<open>
  A blood type is an ABO group and a Rhesus sign; red cells carry the antigens A, B and D
  accordingly. A recipient may receive from a donor exactly when the donor's cells carry
  no antigen that the recipient lacks.
\<close>

datatype abo = GroupO | GroupA | GroupB | GroupAB
datatype rhesus = RhNeg | RhPos
datatype antigen = AntigenA | AntigenB | AntigenD

type_synonym blood_type = "abo \<times> rhesus"

fun abo_antigens :: "abo \<Rightarrow> antigen set" where
  "abo_antigens GroupO = {}"
| "abo_antigens GroupA = {AntigenA}"
| "abo_antigens GroupB = {AntigenB}"
| "abo_antigens GroupAB = {AntigenA, AntigenB}"

fun rh_antigens :: "rhesus \<Rightarrow> antigen set" where
  "rh_antigens RhNeg = {}"
| "rh_antigens RhPos = {AntigenD}"

definition antigens :: "blood_type \<Rightarrow> antigen set" where
  "antigens bt = abo_antigens (fst bt) \<union> rh_antigens (snd bt)"

definition can_receive_from :: "blood_type \<Rightarrow> blood_type \<Rightarrow> bool" where
  "can_receive_from recipient donor = (antigens donor \<subseteq> antigens recipient)"

fun abo_name :: "abo \<Rightarrow> string" where
  "abo_name GroupO = ''O''"
| "abo_name GroupA = ''A''"
| "abo_name GroupB = ''B''"
| "abo_name GroupAB = ''AB''"

fun rhesus_name :: "rhesus \<Rightarrow> string" where
  "rhesus_name RhNeg = ''-''"
| "rhesus_name RhPos = ''+''"

definition blood_type_name :: "blood_type \<Rightarrow> string" where
  "blood_type_name bt = abo_name (fst bt) @ rhesus_name (snd bt)"

definition all_blood_types :: "blood_type list" where
  "all_blood_types =
     [(GroupO, RhNeg), (GroupO, RhPos), (GroupA, RhNeg), (GroupA, RhPos),
      (GroupB, RhNeg), (GroupB, RhPos), (GroupAB, RhNeg), (GroupAB, RhPos)]"

section \<open>Python operations the server relies on\<close>

text \<open>
  \<^verbatim>\<open>a == b\<close> on parsed JSON: booleans and numbers compare by numeric value, strings and
  lists structurally, dictionaries as mappings; values of different kinds are unequal.
\<close>

fun py_eq :: "pyval \<Rightarrow> pyval \<Rightarrow> bool" where
  "py_eq PNone PNone = True"
| "py_eq (PBool a) (PBool b) = (a = b)"
| "py_eq (PBool a) (PNum n) = ((if a then 1 else 0) = num_val n)"
| "py_eq (PNum n) (PBool b) = (num_val n = (if b then 1 else 0))"
| "py_eq (PNum a) (PNum b) = (num_val a = num_val b)"
| "py_eq (PStr a) (PStr b) = (a = b)"
| "py_eq (PList xs) (PList ys) = list_all2 py_eq xs ys"
| "py_eq (PDict a) (PDict b) =
     (set (map fst a) = set (map fst b) \<and>
      (\<forall>(k, x) \<in> set a. \<forall>(k', y) \<in> set b.
          k = k' \<and> map_of a k = Some x \<and> map_of b k = Some y \<longrightarrow> py_eq x y))"
| "py_eq _ _ = False"

text \<open>\<^verbatim>\<open>x > n\<close> for an int literal \<open>n\<close>: a \<^verbatim>\<open>TypeError\<close> unless \<open>x\<close> is a number or a bool.\<close>

fun py_gt :: "pyval \<Rightarrow> int \<Rightarrow> py_error + bool" where
  "py_gt (PBool b) n = Inr ((if b then 1 else 0) > n)"
| "py_gt (PNum x) n = Inr (num_val x > of_int n)"
| "py_gt _ n = Inl TypeError"

text \<open>\<^verbatim>\<open>a or b\<close>: the first operand when it is truthy, else the second.\<close>

definition py_or :: "pyval \<Rightarrow> pyval \<Rightarrow> pyval" where
  "py_or a b = (if truthy a then a else b)"

text \<open>\<^verbatim>\<open>xs.index(v)\<close> on a list of strings: \<^verbatim>\<open>ValueError\<close> when \<open>v\<close> is not in it.\<close>

fun index_of :: "string list \<Rightarrow> pyval \<Rightarrow> py_error + nat" where
  "index_of [] v = Inl ValueError"
| "index_of (s # ss) v =
     (if eq_str v s then Inr 0
      else (case index_of ss v of Inl e \<Rightarrow> Inl e | Inr i \<Rightarrow> Inr (Suc i)))"

text \<open>\<^verbatim>\<open>sep.join(xs)\<close>.\<close>

fun join :: "string \<Rightarrow> string list \<Rightarrow> string" where
  "join sep [] = []"
| "join sep [x] = x"
| "join sep (x # y # ys) = x @ sep @ join sep (y # ys)"

text \<open>
  \<^verbatim>\<open>max(0, score)\<close> and \<^verbatim>\<open>min(100, x)\<close>: Python keeps the first argument unless the
  second is strictly greater (smaller), so the int literal is returned at a tie.
\<close>

definition py_max0 :: "pynum \<Rightarrow> pynum" where
  "py_max0 score = (if num_val score > 0 then score else PyInt 0)"

definition py_min100 :: "pynum \<Rightarrow> pynum" where
  "py_min100 x = (if num_val x < 100 then x else PyInt 100)"

text \<open>
  \<^verbatim>\<open>round(score, 1)\<close>: an int is returned unchanged; a float is rounded to one decimal,
  ties to even (on the idealised real value).
\<close>

definition round_half_even :: "real \<Rightarrow> int" where
  "round_half_even y =
     (let f = \<lfloor>y\<rfloor> in
      if y - of_int f < 1 / 2 then f
      else if y - of_int f > 1 / 2 then f + 1
      else if even f then f else f + 1)"

fun py_round1 :: "pynum \<Rightarrow> pynum" where
  "py_round1 (PyInt i) = PyInt i"
| "py_round1 (PyFloat x) = PyFloat (of_int (round_half_even (x * 10)) / 10)"

text \<open>
  An f-string field \<^verbatim>\<open>{x}\<close>: for a string, its text. The server only formats a value
  that has just passed a membership test against a list of strings.
\<close>

fun fstring :: "pyval \<Rightarrow> string" where
  "fstring (PStr s) = s"

text \<open>
  \<^verbatim>\<open>len(x)\<close> followed by \<^verbatim>\<open>for ... in enumerate(x)\<close>: a list yields its elements, a
  string its characters, a dictionary its keys; anything else has no length.
\<close>

fun iterate :: "pyval \<Rightarrow> py_error + pyval list" where
  "iterate (PList xs) = Inr xs"
| "iterate (PStr s) = Inr (map (\<lambda>c. PStr [c]) s)"
| "iterate (PDict d) = Inr (map PStr (remdups (map fst d)))"
| "iterate _ = Inl TypeError"

text \<open>
  \<^verbatim>\<open>xs.sort(key=f, reverse=True)\<close>: CPython reverses the list, sorts it stably in
  ascending order of the key, and reverses the result.
\<close>

definition py_sort_reverse :: "('a \<Rightarrow> real) \<Rightarrow> 'a list \<Rightarrow> 'a list" where
  "py_sort_reverse f xs = rev (sort_key f (rev xs))"

section \<open>Eligibility screening\<close>

definition check_hard_stops :: "pydict \<Rightarrow> string list" where
  "check_hard_stops donor =
     (if truthy (dget donor ''hivStatus'') then [''HIV positive''] else []) @
     (if truthy (dget donor ''hepatitisB'') then [''Hepatitis B''] else []) @
     (if truthy (dget donor ''hepatitisC'') then [''Hepatitis C''] else []) @
     (if truthy (dget donor ''htlv'') then [''HTLV positive''] else []) @
     (if truthy (dget donor ''ivDrugUse'') then [''IV drug use history''] else [])"

definition check_temporary_deferrals :: "pydict \<Rightarrow> string list" where
  "check_temporary_deferrals donor =
     (if truthy (dget donor ''recentColdFlu'') then [''Recent cold/flu''] else []) @
     (if truthy (dget donor ''recentTattoo'') then [''Recent tattoo''] else []) @
     (if truthy (dget donor ''recentSurgery'') then [''Recent surgery''] else []) @
     (if truthy (dget donor ''pregnant'') then [''Pregnant''] else []) @
     (if truthy (dget donor ''recentVaccination'') then [''Recent vaccination''] else []) @
     (if truthy (dget donor ''recentTravel'') then [''Recent travel''] else [])"

section \<open>Rule-based score\<close>

text \<open>
  The loop over \<^verbatim>\<open>['C', 'c', 'E', 'e']\<close>. \<^verbatim>\<open>recipient_rh.get(variant)\<close> is evaluated
  first and \<^verbatim>\<open>donor_rh.get(variant)\<close> only when it is truthy; either raises
  \<^verbatim>\<open>AttributeError\<close> when the \<^verbatim>\<open>rhVariants\<close> value is not a dictionary.
\<close>

fun antigen_loop :: "pyval \<Rightarrow> pyval \<Rightarrow> string list \<Rightarrow> int \<Rightarrow> py_error + int" where
  "antigen_loop donor_rh recipient_rh [] score = Inr score"
| "antigen_loop donor_rh recipient_rh (variant # rest) score =
     (case as_dict recipient_rh of
        Inl e \<Rightarrow> Inl e
      | Inr r \<Rightarrow>
          if truthy (dget r variant) then
            (case as_dict donor_rh of
               Inl e \<Rightarrow> Inl e
             | Inr d \<Rightarrow>
                 antigen_loop donor_rh recipient_rh rest
                   (if truthy (dget d variant) then score + 3 else score))
          else antigen_loop donor_rh recipient_rh rest score)"

definition calculate_rule_based_score :: "pydict \<Rightarrow> pydict \<Rightarrow> py_error + int" where
  "calculate_rule_based_score donor recipient =
     (let score = 50;
          score = (if py_eq (dget donor ''bloodType'') (dget recipient ''bloodType'')
                   then score + 20 else score);
          donor_rh = dget_default donor ''rhVariants'' (PDict []);
          recipient_rh = dget_default recipient ''rhVariants'' (PDict [])
      in case antigen_loop donor_rh recipient_rh [''C'', ''c'', ''E'', ''e''] score of
           Inl e \<Rightarrow> Inl e
         | Inr score \<Rightarrow>
             let score = (if truthy (dget recipient ''kell'') \<and> truthy (dget donor ''kell'')
                          then score + 3 else score);
                 score = (if truthy (dget recipient ''duffy'') \<and> truthy (dget donor ''duffy'')
                          then score + 3 else score);
                 score = (if truthy (dget recipient ''kidd'') \<and> truthy (dget donor ''kidd'')
                          then score + 3 else score)
             in (case py_gt (dget_default donor ''totalDonations'' (PNum (PyInt 0))) 5 of
                   Inl e \<Rightarrow> Inl e
                 | Inr experienced \<Rightarrow>
                     let score = (if experienced then score + 5 else score);
                         score = (if eq_str (dget recipient ''urgency'') ''critical''
                                     \<and> truthy (dget donor ''willingForEmergency'')
                                  then score + 10 else score)
                     in Inr (min 100 score)))"

section \<open>Feature encoding\<close>

definition blood_types :: "string list" where
  "blood_types = [''A+'', ''A-'', ''B+'', ''B-'', ''AB+'', ''AB-'', ''O+'', ''O-'']"

definition urgency_levels :: "string list" where
  "urgency_levels = [''standard'', ''medium'', ''high'', ''critical'']"

definition py_int :: "int \<Rightarrow> pyval" where
  "py_int i = PNum (PyInt i)"

text \<open>\<^verbatim>\<open>1 if x else 0\<close>.\<close>

definition flag :: "pyval \<Rightarrow> py_error + pyval" where
  "flag x = Inr (py_int (if truthy x then 1 else 0))"

text \<open>
  \<^verbatim>\<open>blood_types.index(p.get('bloodType', 'O+')) if p.get('bloodType') in blood_types else 0\<close>
\<close>

definition blood_type_feature :: "pydict \<Rightarrow> py_error + pyval" where
  "blood_type_feature p =
     (if in_strs (dget p ''bloodType'') blood_types
      then (case index_of blood_types (dget_default p ''bloodType'' (PStr ''O+'')) of
              Inl e \<Rightarrow> Inl e | Inr i \<Rightarrow> Inr (py_int (int i)))
      else Inr (py_int 0))"

text \<open>\<^verbatim>\<open>1 if p.get('rhVariants', {}).get(variant) else 0\<close>\<close>

definition rh_feature :: "pydict \<Rightarrow> string \<Rightarrow> py_error + pyval" where
  "rh_feature p variant =
     (case as_dict (dget_default p ''rhVariants'' (PDict [])) of
        Inl e \<Rightarrow> Inl e
      | Inr rh \<Rightarrow> flag (dget rh variant))"

text \<open>
  \<^verbatim>\<open>['standard', 'medium', 'high', 'critical'].index(recipient.get('urgency', 'standard'))\<close>
\<close>

definition urgency_feature :: "pydict \<Rightarrow> py_error + pyval" where
  "urgency_feature recipient =
     (case index_of urgency_levels (dget_default recipient ''urgency'' (PStr ''standard'')) of
        Inl e \<Rightarrow> Inl e | Inr i \<Rightarrow> Inr (py_int (int i)))"

text \<open>
  The entries of the \<^verbatim>\<open>features\<close> dictionary literal in the order they are written,
  each with the outcome of evaluating its expression.
\<close>

definition feature_entries :: "pydict \<Rightarrow> pydict \<Rightarrow> (string \<times> (py_error + pyval)) list" where
  "feature_entries donor recipient =
    [(''donor_blood_type'', blood_type_feature donor),
     (''donor_age'', Inr (dget_default donor ''age'' (py_int 30))),
     (''donor_gender'', Inr (py_int (if eq_str (dget donor ''gender'') ''Male'' then 1 else 0))),
     (''donor_weight'', Inr (dget_default donor ''weight'' (py_int 70))),
     (''donor_hemoglobin'', Inr (dget_default donor ''hemoglobinLevel'' (py_int 14))),
     (''donor_total_donations'', Inr (dget_default donor ''totalDonations'' (py_int 0))),
     (''donor_willing_emergency'', flag (dget donor ''willingForEmergency'')),
     (''donor_rh_C'', rh_feature donor ''C''),
     (''donor_rh_c'', rh_feature donor ''c''),
     (''donor_rh_E'', rh_feature donor ''E''),
     (''donor_rh_e'', rh_feature donor ''e''),
     (''donor_kell'', flag (dget donor ''kell'')),
     (''donor_duffy'', flag (dget donor ''duffy'')),
     (''donor_kidd'', flag (dget donor ''kidd'')),
     (''recipient_blood_type'', blood_type_feature recipient),
     (''recipient_age'', Inr (dget_default recipient ''age'' (py_int 30))),
     (''recipient_gender'',
        Inr (py_int (if eq_str (dget recipient ''gender'') ''Male'' then 1 else 0))),
     (''recipient_weight'', Inr (dget_default recipient ''patientWeight'' (py_int 70))),
     (''recipient_units_needed'', Inr (dget_default recipient ''units'' (py_int 1))),
     (''recipient_urgency'', urgency_feature recipient),
     (''recipient_rh_C'', rh_feature recipient ''C''),
     (''recipient_rh_c'', rh_feature recipient ''c''),
     (''recipient_rh_E'', rh_feature recipient ''E''),
     (''recipient_rh_e'', rh_feature recipient ''e''),
     (''recipient_kell'', flag (dget recipient ''kell'')),
     (''recipient_duffy'', flag (dget recipient ''duffy'')),
     (''recipient_kidd'', flag (dget recipient ''kidd'')),
     (''recipient_irradiated'', flag (dget recipient ''irradiatedBlood'')),
     (''recipient_cmv_negative'', flag (dget recipient ''cmvNegative'')),
     (''recipient_washed_cells'', flag (dget recipient ''washedCells'')),
     (''recipient_leukocyte_reduced'', flag (dget recipient ''leukocyteReduced''))]"

text \<open>Evaluating the literal entry by entry: the first exception ends it.\<close>

fun build_dict :: "(string \<times> (py_error + pyval)) list \<Rightarrow> py_error + pydict" where
  "build_dict [] = Inr []"
| "build_dict ((k, Inl e) # rest) = Inl e"
| "build_dict ((k, Inr v) # rest) =
     (case build_dict rest of Inl e \<Rightarrow> Inl e | Inr d \<Rightarrow> Inr ((k, v) # d))"

text \<open>\<^verbatim>\<open>list(features.values())\<close>, the values in insertion order.\<close>

definition feature_values :: "pydict \<Rightarrow> pydict \<Rightarrow> py_error + pyval list" where
  "feature_values donor recipient =
     (case build_dict (feature_entries donor recipient) of
        Inl e \<Rightarrow> Inl e | Inr features \<Rightarrow> Inr (map snd features))"

text \<open>
  \<^verbatim>\<open>np.array(...).reshape(1, -1)\<close> belongs to numpy: it is a parameter, a function from
  the list of values to the array, which may raise.
\<close>

definition prepare_features ::
  "(pyval list \<Rightarrow> py_error + 'f) \<Rightarrow> pydict \<Rightarrow> pydict \<Rightarrow> py_error + 'f" where
  "prepare_features np_array donor recipient =
     (case feature_values donor recipient of
        Inl e \<Rightarrow> Inl e | Inr values \<Rightarrow> np_array values)"

section \<open>The learned model\<close>

text \<open>
  The unpickled object: \<open>predict_proba\<close> is \<open>None\<close> when the object has no such
  attribute, and otherwise gives the first row of \<^verbatim>\<open>model.predict_proba(features)\<close>;
  \<open>predict_first\<close> gives \<^verbatim>\<open>model.predict(features)[0]\<close>. Either may raise (an object
  without \<^verbatim>\<open>predict\<close> raises \<^verbatim>\<open>AttributeError\<close>).
\<close>

record 'f learned_model =
  predict_proba :: "('f \<Rightarrow> py_error + real list) option"
  predict_first :: "'f \<Rightarrow> py_error + real"

text \<open>The body of the inner \<^verbatim>\<open>try\<close>: the score read from the model.\<close>

definition model_score :: "'f learned_model \<Rightarrow> 'f \<Rightarrow> py_error + real" where
  "model_score m features =
     (case predict_proba m of
        Some proba_of \<Rightarrow>
          (case proba_of features of
             Inl e \<Rightarrow> Inl e
           | Inr proba \<Rightarrow>
               if length proba > 1 then Inr (proba ! 1 * 100)
               else (case proba of [] \<Rightarrow> Inl IndexError | p0 # _ \<Rightarrow> Inr (p0 * 100)))
      | None \<Rightarrow>
          (case predict_first m features of
             Inl e \<Rightarrow> Inl e
           | Inr prediction \<Rightarrow>
               Inr (if prediction \<le> 1 then prediction * 100 else prediction)))"

text \<open>
  What a request handler sees besides the request: numpy's array constructor, the global
  \<^verbatim>\<open>model\<close> (\<open>None\<close> when loading failed) and the clock read by
  \<^verbatim>\<open>np.datetime64('now')\<close>.
\<close>

record 'f server =
  np_array :: "pyval list \<Rightarrow> py_error + 'f"
  model :: "'f learned_model option"
  clock :: string

definition rule_score :: "pydict \<Rightarrow> pydict \<Rightarrow> py_error + pynum" where
  "rule_score donor recipient =
     (case calculate_rule_based_score donor recipient of
        Inl e \<Rightarrow> Inl e | Inr s \<Rightarrow> Inr (PyInt s))"

section \<open>The \<^verbatim>\<open>/predict\<close> handler\<close>

text \<open>
  The JSON bodies the handler returns: the two rejections carry \<open>reason\<close>, a scored pair
  carries \<open>warnings\<close> and \<open>model_used\<close>. The \<^verbatim>\<open>except Exception\<close> around the whole
  handler turns any exception into the error response (status 500), here \<open>Inl\<close>.
\<close>

record predict_response =
  compatible :: bool
  score :: pynum
  reason :: "string option"
  score_warnings :: "string list option"
  model_used :: "bool option"

text \<open>
  Lines 158 to 175: \<^verbatim>\<open>prepare_features\<close> is called before the inner \<^verbatim>\<open>try\<close>, so
  only a failure of the model call itself falls back to the rule-based score.
\<close>

definition predict_score :: "'f server \<Rightarrow> pydict \<Rightarrow> pydict \<Rightarrow> py_error + pynum" where
  "predict_score srv donor recipient =
     (case model srv of
        Some m \<Rightarrow>
          (case prepare_features (np_array srv) donor recipient of
             Inl e \<Rightarrow> Inl e
           | Inr features \<Rightarrow>
               (case model_score m features of
                  Inr s \<Rightarrow> Inr (PyFloat s)
                | Inl e \<Rightarrow> rule_score donor recipient))
      | None \<Rightarrow> rule_score donor recipient)"

definition predict :: "'f server \<Rightarrow> pyval \<Rightarrow> py_error + predict_response" where
  "predict srv request_json =
     (case as_dict request_json of
        Inl e \<Rightarrow> Inl e
      | Inr data \<Rightarrow>
          let donor = dget_default data ''donor'' (PDict []);
              recipient = dget_default data ''recipient'' (PDict [])
          in (case as_dict recipient of
                Inl e \<Rightarrow> Inl e
              | Inr recipient \<Rightarrow>
                  let compatible_types =
                        get_compatible_donor_types (dget_default recipient ''bloodType'' (PStr ''''))
                  in (case as_dict donor of
                        Inl e \<Rightarrow> Inl e
                      | Inr donor \<Rightarrow>
                          if \<not> in_strs (dget donor ''bloodType'') compatible_types then
                            Inr \<lparr>compatible = False, score = PyInt 0,
                                 reason = Some ''Blood type incompatible'',
                                 score_warnings = None, model_used = None\<rparr>
                          else
                            let hard_stops = check_hard_stops donor in
                            if hard_stops \<noteq> [] then
                              Inr \<lparr>compatible = False, score = PyInt 0,
                                   reason = Some (''Permanent deferral: '' @ join '', '' hard_stops),
                                   score_warnings = None, model_used = None\<rparr>
                            else
                              (case predict_score srv donor recipient of
                                 Inl e \<Rightarrow> Inl e
                               | Inr s \<Rightarrow>
                                   let warnings = check_temporary_deferrals donor in
                                   Inr \<lparr>compatible = True, score = py_min100 (py_max0 s),
                                        reason = None, score_warnings = Some warnings,
                                        model_used = Some (model srv \<noteq> None)\<rparr>))))"

section \<open>The \<^verbatim>\<open>/match\<close> handler\<close>

record match_result =
  donorId :: pyval
  donorName :: pyval
  donorBloodType :: pyval
  donorLocation :: pyval
  donorContact :: pyval
  donorAvailability :: pyval
  compatibilityScore :: pynum
  priority :: string
  isEligible :: bool
  warnings :: "string list"
  matchReasons :: "string list"

text \<open>
  Lines 253 to 273: the outer \<^verbatim>\<open>try\<close> catches whatever the learned path raises,
  \<^verbatim>\<open>prepare_features\<close> included, and scores by rule; an exception of that last call is
  not caught here.
\<close>

definition match_score :: "'f server \<Rightarrow> pydict \<Rightarrow> pydict \<Rightarrow> py_error + pynum" where
  "match_score srv donor recipient =
     (case (case model srv of
              Some m \<Rightarrow>
                (case prepare_features (np_array srv) donor recipient of
                   Inl e \<Rightarrow> Inl e
                 | Inr features \<Rightarrow>
                     (case model_score m features of
                        Inr s \<Rightarrow> Inr (PyFloat s)
                      | Inl model_error \<Rightarrow> rule_score donor recipient))
            | None \<Rightarrow> rule_score donor recipient) of
        Inr s \<Rightarrow> Inr s
      | Inl score_error \<Rightarrow> rule_score donor recipient)"

text \<open>
  One pass of the loop body for one element of \<^verbatim>\<open>donors\<close>: \<open>Inr None\<close> is
  \<^verbatim>\<open>continue\<close>, \<open>Inr (Some m)\<close> is the dictionary appended to \<^verbatim>\<open>matches\<close>, \<open>Inl\<close> an
  exception that leaves the loop.
\<close>

definition match_donor ::
  "'f server \<Rightarrow> pydict \<Rightarrow> string list \<Rightarrow> pyval \<Rightarrow> py_error + match_result option" where
  "match_donor srv recipient compatible_types donor_entry =
     (case as_dict donor_entry of
        Inl e \<Rightarrow> Inl e
      | Inr donor \<Rightarrow>
          let donor_blood = dget donor ''bloodType'' in
          if \<not> in_strs donor_blood compatible_types then Inr None
          else if check_hard_stops donor \<noteq> [] then Inr None
          else
            (case match_score srv donor recipient of
               Inl e \<Rightarrow> Inl e
             | Inr s \<Rightarrow>
                 let warnings = check_temporary_deferrals donor;
                     priority = (if num_val s \<ge> 80 then ''high''
                                 else if num_val s \<ge> 50 then ''medium''
                                 else ''low'')
                 in Inr (Some
                      \<lparr>donorId = py_or (dget donor ''id'') (dget donor ''donorId''),
                       donorName = dget_default donor ''donorName'' (PStr ''Anonymous''),
                       donorBloodType = dget donor ''bloodType'',
                       donorLocation = dget_default donor ''location'' (PStr ''Unknown''),
                       donorContact = dget_default donor ''contactNumber'' (PStr ''N/A''),
                       donorAvailability = dget_default donor ''availability'' (PStr ''N/A''),
                       compatibilityScore = py_round1 s,
                       priority = priority,
                       isEligible = (length warnings = 0),
                       warnings = warnings,
                       matchReasons =
                         [''Blood type '' @ fstring (dget donor ''bloodType'') @ '' compatible'']\<rparr>)))"

fun match_loop ::
  "'f server \<Rightarrow> pydict \<Rightarrow> string list \<Rightarrow> pyval list \<Rightarrow> match_result list
     \<Rightarrow> py_error + match_result list" where
  "match_loop srv recipient compatible_types [] matches = Inr matches"
| "match_loop srv recipient compatible_types (donor # donors) matches =
     (case match_donor srv recipient compatible_types donor of
        Inl e \<Rightarrow> Inl e
      | Inr None \<Rightarrow> match_loop srv recipient compatible_types donors matches
      | Inr (Some m) \<Rightarrow> match_loop srv recipient compatible_types donors (matches @ [m]))"

record match_response =
  requestId :: pyval
  recipientName :: pyval
  bloodTypeNeeded :: pyval
  urgency :: pyval
  matches :: "match_result list"
  totalMatchesFound :: nat
  modelUsed :: bool
  timestamp :: string

definition match_donors :: "'f server \<Rightarrow> pyval \<Rightarrow> py_error + match_response" where
  "match_donors srv request_json =
     (case as_dict request_json of
        Inl e \<Rightarrow> Inl e
      | Inr data \<Rightarrow>
          let recipient = dget_default data ''recipientRequest'' (PDict []);
              donors = dget_default data ''availableDonors'' (PList [])
          in (case as_dict recipient of
                Inl e \<Rightarrow> Inl e
              | Inr recipient \<Rightarrow>
                  (case iterate donors of
                     Inl e \<Rightarrow> Inl e
                   | Inr donors \<Rightarrow>
                       let compatible_types =
                             get_compatible_donor_types
                               (dget_default recipient ''bloodType'' (PStr ''''))
                       in (case match_loop srv recipient compatible_types donors [] of
                             Inl e \<Rightarrow> Inl e
                           | Inr appended \<Rightarrow>
                               let matches =
                                     py_sort_reverse (\<lambda>x. num_val (compatibilityScore x)) appended
                               in Inr \<lparr>requestId = dget recipient ''id'',
                                       recipientName = dget recipient ''userName'',
                                       bloodTypeNeeded = dget recipient ''bloodType'',
                                       urgency = dget recipient ''urgency'',
                                       matches = matches,
                                       totalMatchesFound = length matches,
                                       modelUsed = (model srv \<noteq> None),
                                       timestamp = clock srv\<rparr>))))"

text \<open>The request body \<^verbatim>\<open>{"recipientRequest": r, "availableDonors": [...]}\<close>.\<close>

definition match_request :: "pyval \<Rightarrow> pyval list \<Rightarrow> pyval" where
  "match_request recipient donors =
     PDict [(''recipientRequest'', recipient), (''availableDonors'', PList donors)]"

text \<open>The request body \<^verbatim>\<open>{"donor": d, "recipient": r}\<close>.\<close>

definition predict_request :: "pyval \<Rightarrow> pyval \<Rightarrow> pyval" where
  "predict_request donor recipient = PDict [(''donor'', donor), (''recipient'', recipient)]"

section \<open>Vocabulary of the specification\<close>

text \<open>A donor record with any permanent-deferral flag set (a truthy value).\<close>

definition has_hard_stop_flag :: "pydict \<Rightarrow> bool" where
  "has_hard_stop_flag donor \<longleftrightarrow>
     truthy (dget donor ''hivStatus'') \<or> truthy (dget donor ''hepatitisB'')
     \<or> truthy (dget donor ''hepatitisC'') \<or> truthy (dget donor ''htlv'')
     \<or> truthy (dget donor ''ivDrugUse'')"

text \<open>The donor types a recipient record can receive from, as both handlers compute them.\<close>

definition compatible_types_for :: "pydict \<Rightarrow> string list" where
  "compatible_types_for recipient =
     get_compatible_donor_types (dget_default recipient ''bloodType'' (PStr ''''))"

text \<open>
  Two concrete servers: one where no model was loaded, and one holding a regression
  model (no \<^verbatim>\<open>predict_proba\<close>) whose \<^verbatim>\<open>predict\<close> answers \<open>x\<close> for every input. The array
  constructor of both succeeds and keeps the values.
\<close>

definition rule_server :: "string \<Rightarrow> (pyval list) server" where
  "rule_server t = \<lparr>np_array = Inr, model = None, clock = t\<rparr>"

definition regression_server :: "real \<Rightarrow> string \<Rightarrow> (pyval list) server" where
  "regression_server x t =
     \<lparr>np_array = Inr,
      model = Some \<lparr>predict_proba = None, predict_first = (\<lambda>features. Inr x)\<rparr>,
      clock = t\<rparr>"

section \<open>The rule-based score as the specification words it\<close>

text \<open>
  A reference definition written from the prose: a base of 50 and six kinds of bonus,
  the sum clamped to the range from 0 to 100. It is compared with
  \<open>calculate_rule_based_score\<close> below.
\<close>

definition is_dict :: "pyval \<Rightarrow> bool" where
  "is_dict v = (case v of PDict d \<Rightarrow> True | _ \<Rightarrow> False)"

definition is_number :: "pyval \<Rightarrow> bool" where
  "is_number v = (case v of PBool b \<Rightarrow> True | PNum n \<Rightarrow> True | _ \<Rightarrow> False)"

text \<open>An antigen is present in a record's \<^verbatim>\<open>rhVariants\<close>.\<close>

definition rh_present :: "pydict \<Rightarrow> string \<Rightarrow> bool" where
  "rh_present p a =
     (case dget_default p ''rhVariants'' (PDict []) of
        PDict rh \<Rightarrow> truthy (dget rh a)
      | _ \<Rightarrow> False)"

definition both_have :: "pydict \<Rightarrow> pydict \<Rightarrow> string \<Rightarrow> bool" where
  "both_have donor recipient field = (truthy (dget donor field) \<and> truthy (dget recipient field))"

text \<open>The number of prior donations, 0 when the field is absent.\<close>

definition total_donations :: "pydict \<Rightarrow> real" where
  "total_donations donor =
     (case dget_default donor ''totalDonations'' (PNum (PyInt 0)) of
        PNum n \<Rightarrow> num_val n
      | PBool b \<Rightarrow> (if b then 1 else 0)
      | _ \<Rightarrow> 0)"

definition critical_and_willing :: "pydict \<Rightarrow> pydict \<Rightarrow> bool" where
  "critical_and_willing donor recipient =
     (dget recipient ''urgency'' = PStr ''critical'' \<and> truthy (dget donor ''willingForEmergency''))"

definition reference_rule_score :: "pydict \<Rightarrow> pydict \<Rightarrow> int" where
  "reference_rule_score donor recipient =
     max 0 (min 100
       (50
        + (if dget donor ''bloodType'' = dget recipient ''bloodType'' then 20 else 0)
        + 3 * int (length (filter (\<lambda>a. rh_present donor a \<and> rh_present recipient a)
                             [''C'', ''c'', ''E'', ''e'']))
        + (if both_have donor recipient ''kell'' then 3 else 0)
        + (if both_have donor recipient ''duffy'' then 3 else 0)
        + (if both_have donor recipient ''kidd'' then 3 else 0)
        + (if total_donations donor > 5 then 5 else 0)
        + (if critical_and_willing donor recipient then 10 else 0)))"

text \<open>A pair that earns none of the bonuses other than the one for equal blood types.\<close>

definition no_other_bonus :: "pydict \<Rightarrow> pydict \<Rightarrow> bool" where
  "no_other_bonus donor recipient =
     (filter (\<lambda>a. rh_present donor a \<and> rh_present recipient a) [''C'', ''c'', ''E'', ''e''] = []
      \<and> \<not> (both_have donor recipient ''kell'' \<or> both_have donor recipient ''duffy''
            \<or> both_have donor recipient ''kidd'' \<or> total_donations donor > 5
            \<or> critical_and_willing donor recipient))"

text \<open>The score a match is ranked by, and the matches in the order of the donor list.\<close>

definition score_of :: "match_result \<Rightarrow> real" where
  "score_of m = num_val (compatibilityScore m)"

definition matches_in_input_order :: "'f server \<Rightarrow> pydict \<Rightarrow> pyval list \<Rightarrow> match_result list" where
  "matches_in_input_order srv recipient donors =
     List.map_filter
       (\<lambda>donor. case match_donor srv recipient (compatible_types_for recipient) donor of
                  Inr (Some m) \<Rightarrow> Some m
                | _ \<Rightarrow> None)
       donors"

text \<open>What a response says about its matches: the score and the priority of each.\<close>

definition ranked_scores :: "py_error + match_response \<Rightarrow> py_error + (pynum \<times> string) list" where
  "ranked_scores answer =
     (case answer of
        Inl e \<Rightarrow> Inl e
      | Inr resp \<Rightarrow> Inr (map (\<lambda>m. (compatibilityScore m, priority m)) (matches resp)))"

text \<open>A response with its \<open>timestamp\<close> replaced.\<close>

definition stamped :: "string \<Rightarrow> py_error + match_response \<Rightarrow> py_error + match_response" where
  "stamped t answer =
     (case answer of Inl e \<Rightarrow> Inl e | Inr resp \<Rightarrow> Inr (resp\<lparr>timestamp := t\<rparr>))"


text \<open>The answer of \<^verbatim>\<open>/predict\<close> to a pair that fails the blood type check.\<close>

definition incompatible_answer :: predict_response where
  "incompatible_answer =
     \<lparr>compatible = False, score = PyInt 0, reason = Some ''Blood type incompatible'',
      score_warnings = None, model_used = None\<rparr>"

section \<open>Properties of the compatibility rule\<close>

lemma in_strs_iff: "in_strs v ss \<longleftrightarrow> (\<exists>s \<in> set ss. v = PStr s)"
  by (cases v) (auto simp: in_strs_def list_ex_iff)

lemma UNIV_blood_types: "(UNIV :: blood_type set) = set all_blood_types"
proof -
  have "bt \<in> set all_blood_types" for bt :: blood_type
    by (cases bt; cases "fst bt"; cases "snd bt") (auto simp: all_blood_types_def)
  then show ?thesis by auto
qed

lemma all_blood_type: "(\<forall>bt :: blood_type. P bt) \<longleftrightarrow> list_all P all_blood_types"
  using UNIV_blood_types by (auto simp: list_all_iff)

lemma table_matches_classical_rule:
  "list_all (\<lambda>r. list_all (\<lambda>d.
      (blood_type_name d \<in> set (get_compatible_donor_types (PStr (blood_type_name r))))
        = can_receive_from r d) all_blood_types) all_blood_types"
  by (simp add: all_blood_types_def blood_type_name_def get_compatible_donor_types_def
      BLOOD_COMPATIBILITY_def in_strs_def can_receive_from_def antigens_def)

lemma compatible_types_are_blood_types:
  "set (get_compatible_donor_types v) \<subseteq> set (map blood_type_name all_blood_types)"
  by (auto simp: all_blood_types_def blood_type_name_def get_compatible_donor_types_def
      BLOOD_COMPATIBILITY_def)

lemma unknown_recipient_type_empty:
  "\<not> in_strs v (map blood_type_name all_blood_types) \<Longrightarrow> get_compatible_donor_types v = []"
  by (simp add: all_blood_types_def blood_type_name_def get_compatible_donor_types_def
      BLOOD_COMPATIBILITY_def in_strs_def)

lemma universal_donor:
  "list_all (\<lambda>r. ''O-'' \<in> set (get_compatible_donor_types (PStr (blood_type_name r))))
     all_blood_types"
  by (simp add: all_blood_types_def blood_type_name_def get_compatible_donor_types_def
      BLOOD_COMPATIBILITY_def in_strs_def)

lemma universal_recipient:
  "get_compatible_donor_types (PStr ''AB+'') = map blood_type_name all_blood_types"
  by (simp add: all_blood_types_def blood_type_name_def get_compatible_donor_types_def
      BLOOD_COMPATIBILITY_def in_strs_def)

text \<open>
  Claim C2. For the eight blood types, a donor type is in
  \<open>get_compatible_donor_types\<close> of the recipient type exactly when the classical ABO/Rh
  rule lets that recipient receive from that donor; the result never holds anything but
  the eight type names; O- is in the result for every recipient type; for AB+ the result
  is all eight types; and for any value that is not one of the eight names (the empty
  string used for a missing field, \<^verbatim>\<open>None\<close>, a number, an unknown string) the result is
  the empty list.
\<close>

theorem compatible_donor_types_classical:
  "(\<forall>r d. blood_type_name d \<in> set (get_compatible_donor_types (PStr (blood_type_name r)))
            \<longleftrightarrow> can_receive_from r d)
   \<and> set (get_compatible_donor_types v) \<subseteq> range blood_type_name
   \<and> (\<forall>r. ''O-'' \<in> set (get_compatible_donor_types (PStr (blood_type_name r))))
   \<and> set (get_compatible_donor_types (PStr ''AB+'')) = range blood_type_name
   \<and> ((\<nexists>r. v = PStr (blood_type_name r)) \<longrightarrow> get_compatible_donor_types v = [])"
proof (intro conjI)
  show "\<forall>r d. blood_type_name d \<in> set (get_compatible_donor_types (PStr (blood_type_name r)))
            \<longleftrightarrow> can_receive_from r d"
    by (simp only: all_blood_type table_matches_classical_rule)
  show "set (get_compatible_donor_types v) \<subseteq> range blood_type_name"
    using compatible_types_are_blood_types [of v] by (simp add: UNIV_blood_types)
  show "\<forall>r. ''O-'' \<in> set (get_compatible_donor_types (PStr (blood_type_name r)))"
    by (simp only: all_blood_type universal_donor)
  show "set (get_compatible_donor_types (PStr ''AB+'')) = range blood_type_name"
    by (simp only: universal_recipient UNIV_blood_types set_map)
  show "(\<nexists>r. v = PStr (blood_type_name r)) \<longrightarrow> get_compatible_donor_types v = []"
  proof
    assume "\<nexists>r. v = PStr (blood_type_name r)"
    then have "\<not> in_strs v (map blood_type_name all_blood_types)"
      by (auto simp: in_strs_iff)
    then show "get_compatible_donor_types v = []"
      by (rule unknown_recipient_type_empty)
  qed
qed

theorem compatible_donor_types_classical_witness:
  "get_compatible_donor_types (PStr '''') = []
   \<and> (''A-'' \<in> set (get_compatible_donor_types (PStr ''A+'')))
   \<and> (''A+'' \<notin> set (get_compatible_donor_types (PStr ''A-'')))"
proof -
  have "abo_name g \<noteq> []" for g
    by (cases g) simp_all
  then have no: "\<nexists>r. PStr '''' = PStr (blood_type_name r)"
    by (simp add: blood_type_name_def)
  have a: "can_receive_from (GroupA, RhPos) (GroupA, RhNeg)"
    and b: "\<not> can_receive_from (GroupA, RhNeg) (GroupA, RhPos)"
    by (simp_all add: can_receive_from_def antigens_def)
  have n: "blood_type_name (GroupA, RhPos) = ''A+''" "blood_type_name (GroupA, RhNeg) = ''A-''"
    by (simp_all add: blood_type_name_def)
  from compatible_donor_types_classical [of "PStr ''''"] no a b
  have "get_compatible_donor_types (PStr '''') = []"
    and "blood_type_name (GroupA, RhNeg)
           \<in> set (get_compatible_donor_types (PStr (blood_type_name (GroupA, RhPos))))"
    and "blood_type_name (GroupA, RhPos)
           \<notin> set (get_compatible_donor_types (PStr (blood_type_name (GroupA, RhNeg))))"
    by blast+
  then show ?thesis by (simp only: n) simp
qed

section \<open>Permanent deferrals\<close>

lemma match_loop_append:
  "match_loop srv r ct (xs @ ys) acc =
     (case match_loop srv r ct xs acc of
        Inl e \<Rightarrow> Inl e
      | Inr acc' \<Rightarrow> match_loop srv r ct ys acc')"
  by (induction xs arbitrary: acc) (auto split: sum.splits option.splits)

lemma match_loop_skip:
  assumes "match_donor srv r ct e = Inr None"
  shows "match_loop srv r ct (xs @ e # ys) acc = match_loop srv r ct (xs @ ys) acc"
  using assms by (simp add: match_loop_append split: sum.splits)

lemma match_request_fields:
  "as_dict (match_request r ds) = Inr [(''recipientRequest'', r), (''availableDonors'', PList ds)]"
  "dget_default [(''recipientRequest'', r), (''availableDonors'', PList ds)]
     ''recipientRequest'' x = r"
  "dget_default [(''recipientRequest'', r), (''availableDonors'', PList ds)]
     ''availableDonors'' y = PList ds"
  by (simp_all add: match_request_def as_dict_def dget_default_def)

text \<open>The handler on a request whose donors are a list, with the envelope peeled off.\<close>

lemma match_donors_request:
  "match_donors srv (match_request r ds) =
     (case as_dict r of
        Inl e \<Rightarrow> Inl e
      | Inr recipient \<Rightarrow>
          (case match_loop srv recipient (compatible_types_for recipient) ds [] of
             Inl e \<Rightarrow> Inl e
           | Inr appended \<Rightarrow>
               Inr \<lparr>requestId = dget recipient ''id'',
                    recipientName = dget recipient ''userName'',
                    bloodTypeNeeded = dget recipient ''bloodType'',
                    urgency = dget recipient ''urgency'',
                    matches = py_sort_reverse (\<lambda>x. num_val (compatibilityScore x)) appended,
                    totalMatchesFound =
                      length (py_sort_reverse (\<lambda>x. num_val (compatibilityScore x)) appended),
                    modelUsed = (model srv \<noteq> None),
                    timestamp = clock srv\<rparr>))"
  by (simp add: match_donors_def match_request_fields compatible_types_for_def Let_def
      split: sum.splits)

text \<open>An entry the loop body skips can be taken out of the list.\<close>

lemma match_donors_drop:
  assumes "\<And>rd. r = PDict rd \<Longrightarrow> match_donor srv rd (compatible_types_for rd) e = Inr None"
  shows "match_donors srv (match_request r (xs @ e # ys))
           = match_donors srv (match_request r (xs @ ys))"
proof (cases "as_dict r")
  case (Inl e)
  then show ?thesis by (simp add: match_donors_request)
next
  case (Inr rd)
  then have "r = PDict rd" by (cases r) (simp_all add: as_dict_def)
  from assms[OF this] Inr show ?thesis
    by (simp add: match_donors_request match_loop_skip)
qed

lemma hard_stops_nonempty: "check_hard_stops d \<noteq> [] \<longleftrightarrow> has_hard_stop_flag d"
  by (simp add: check_hard_stops_def has_hard_stop_flag_def)

lemma match_donor_hard_stop:
  "has_hard_stop_flag d \<Longrightarrow> match_donor srv r ct (PDict d) = Inr None"
  by (simp add: match_donor_def as_dict_def hard_stops_nonempty Let_def)

lemma sublist_join: "x \<in> set xs \<Longrightarrow> sublist x (join sep xs)"
proof (induction sep xs rule: join.induct)
  case (1 sep)
  then show ?case by simp
next
  case (2 sep y)
  then show ?case by simp
next
  case (3 sep a b ys)
  show ?case
  proof (cases "x = a")
    case True
    then show ?thesis by simp
  next
    case False
    with 3 have "sublist x (join sep (b # ys))" by simp
    then have "sublist x ((a @ sep) @ join sep (b # ys))"
      by (rule sublist_order.order.trans) (rule suffix_imp_sublist, simp add: suffix_def)
    then show ?thesis by simp
  qed
qed

lemma sublist_prepend: "sublist x ys \<Longrightarrow> sublist x (zs @ ys)"
  by (auto simp: sublist_def) (metis append.assoc)

lemma hard_stop_reasons:
  "truthy (dget donor ''hivStatus'') \<longrightarrow> ''HIV positive'' \<in> set (check_hard_stops donor)"
  "truthy (dget donor ''hepatitisB'') \<longrightarrow> ''Hepatitis B'' \<in> set (check_hard_stops donor)"
  "truthy (dget donor ''hepatitisC'') \<longrightarrow> ''Hepatitis C'' \<in> set (check_hard_stops donor)"
  "truthy (dget donor ''htlv'') \<longrightarrow> ''HTLV positive'' \<in> set (check_hard_stops donor)"
  "truthy (dget donor ''ivDrugUse'') \<longrightarrow> ''IV drug use history'' \<in> set (check_hard_stops donor)"
  by (simp_all add: check_hard_stops_def)

text \<open>
  Claim C1. Let a donor record have any of the flags \<^verbatim>\<open>hivStatus\<close>, \<^verbatim>\<open>hepatitisB\<close>,
  \<^verbatim>\<open>hepatitisC\<close>, \<^verbatim>\<open>htlv\<close>, \<^verbatim>\<open>ivDrugUse\<close> set. Then, whatever its blood type, the
  answer of \<^verbatim>\<open>/match\<close> to a donor list holding that record is the answer to the list
  without it, so the donor is in no match; and when its blood type is compatible with the
  recipient's, \<^verbatim>\<open>/predict\<close> answers \<open>compatible = False\<close>, \<open>score = 0\<close> and a reason
  that contains the text of every condition whose flag is set (\<open>HIV positive\<close> for
  \<^verbatim>\<open>hivStatus\<close>, and so on).
\<close>

theorem hard_stopped_donor_rejected:
  assumes "has_hard_stop_flag donor"
  shows "match_donors srv (match_request recipient (before @ PDict donor # after))
           = match_donors srv (match_request recipient (before @ after))
     \<and> (in_strs (dget donor ''bloodType'') (compatible_types_for rd) \<longrightarrow>
          (\<exists>why. predict srv (predict_request (PDict donor) (PDict rd))
                 = Inr \<lparr>compatible = False, score = PyInt 0, reason = Some why,
                        score_warnings = None, model_used = None\<rparr>
               \<and> (truthy (dget donor ''hivStatus'') \<longrightarrow> sublist ''HIV positive'' why)
               \<and> (truthy (dget donor ''hepatitisB'') \<longrightarrow> sublist ''Hepatitis B'' why)
               \<and> (truthy (dget donor ''hepatitisC'') \<longrightarrow> sublist ''Hepatitis C'' why)
               \<and> (truthy (dget donor ''htlv'') \<longrightarrow> sublist ''HTLV positive'' why)
               \<and> (truthy (dget donor ''ivDrugUse'') \<longrightarrow> sublist ''IV drug use history'' why)))"
proof (intro conjI impI)
  show "match_donors srv (match_request recipient (before @ PDict donor # after))
           = match_donors srv (match_request recipient (before @ after))"
    by (rule match_donors_drop) (rule match_donor_hard_stop, rule assms)
next
  assume ok: "in_strs (dget donor ''bloodType'') (compatible_types_for rd)"
  let ?why = "''Permanent deferral: '' @ join '', '' (check_hard_stops donor)"
  have p: "predict srv (predict_request (PDict donor) (PDict rd))
                 = Inr \<lparr>compatible = False, score = PyInt 0, reason = Some ?why,
                        score_warnings = None, model_used = None\<rparr>"
    using ok assms
    by (simp add: predict_def predict_request_def as_dict_def dget_default_def Let_def
        hard_stops_nonempty compatible_types_for_def)
  have m: "x \<in> set (check_hard_stops donor) \<Longrightarrow> sublist x ?why" for x
    by (rule sublist_prepend) (rule sublist_join)
  have "truthy (dget donor ''hivStatus'') \<longrightarrow> sublist ''HIV positive'' ?why"
    "truthy (dget donor ''hepatitisB'') \<longrightarrow> sublist ''Hepatitis B'' ?why"
    "truthy (dget donor ''hepatitisC'') \<longrightarrow> sublist ''Hepatitis C'' ?why"
    "truthy (dget donor ''htlv'') \<longrightarrow> sublist ''HTLV positive'' ?why"
    "truthy (dget donor ''ivDrugUse'') \<longrightarrow> sublist ''IV drug use history'' ?why"
    using hard_stop_reasons [of donor] m by blast+
  with p show "\<exists>why. predict srv (predict_request (PDict donor) (PDict rd))
                 = Inr \<lparr>compatible = False, score = PyInt 0, reason = Some why,
                        score_warnings = None, model_used = None\<rparr>
               \<and> (truthy (dget donor ''hivStatus'') \<longrightarrow> sublist ''HIV positive'' why)
               \<and> (truthy (dget donor ''hepatitisB'') \<longrightarrow> sublist ''Hepatitis B'' why)
               \<and> (truthy (dget donor ''hepatitisC'') \<longrightarrow> sublist ''Hepatitis C'' why)
               \<and> (truthy (dget donor ''htlv'') \<longrightarrow> sublist ''HTLV positive'' why)
               \<and> (truthy (dget donor ''ivDrugUse'') \<longrightarrow> sublist ''IV drug use history'' why)"
    by blast
qed

theorem hard_stopped_donor_rejected_witness:
  "has_hard_stop_flag [(''bloodType'', PStr ''O-''), (''hivStatus'', PBool True)]
   \<and> match_donors (rule_server ''t'')
       (match_request (PDict [(''bloodType'', PStr ''AB+'')])
          [PDict [(''bloodType'', PStr ''AB+'')],
           PDict [(''bloodType'', PStr ''O-''), (''hivStatus'', PBool True)]])
     = match_donors (rule_server ''t'')
         (match_request (PDict [(''bloodType'', PStr ''AB+'')])
            [PDict [(''bloodType'', PStr ''AB+'')]])
   \<and> (\<exists>why. predict (rule_server ''t'')
               (predict_request (PDict [(''bloodType'', PStr ''O-''), (''hivStatus'', PBool True)])
                  (PDict [(''bloodType'', PStr ''AB+'')]))
             = Inr \<lparr>compatible = False, score = PyInt 0, reason = Some why,
                    score_warnings = None, model_used = None\<rparr>
           \<and> sublist ''HIV positive'' why)"
proof -
  let ?d = "[(''bloodType'', PStr ''O-''), (''hivStatus'', PBool True)]"
  let ?r = "[(''bloodType'', PStr ''AB+'')]"
  have flag: "has_hard_stop_flag ?d"
    by (simp add: has_hard_stop_flag_def dget_def)
  have hiv: "truthy (dget ?d ''hivStatus'')"
    by (simp add: dget_def)
  have ok: "in_strs (dget ?d ''bloodType'') (compatible_types_for ?r)"
    by (simp add: compatible_types_for_def get_compatible_donor_types_def
        BLOOD_COMPATIBILITY_def in_strs_def dget_def dget_default_def)
  from hard_stopped_donor_rejected
         [OF flag, of "rule_server ''t''" "PDict ?r" "[PDict ?r]" "[]" ?r]
  show ?thesis using flag hiv ok by auto
qed

section \<open>The rule-based score\<close>

lemma antigen_loop_dicts:
  "antigen_loop (PDict d) (PDict r) vs s =
     Inr (s + 3 * int (length (filter (\<lambda>a. truthy (dget d a) \<and> truthy (dget r a)) vs)))"
  by (induction vs arbitrary: s) (simp_all add: as_dict_def)

lemma py_gt_number: "is_number v \<Longrightarrow> \<exists>b. py_gt v n = Inr b"
  by (cases v) (simp_all add: is_number_def)

lemma if_add: "(if c then (s::int) + k else s) = s + (if c then k else 0)"
  by simp

lemma in_strs_PStr: "in_strs v ss \<Longrightarrow> \<exists>s. v = PStr s"
  by (auto simp: in_strs_iff)

lemma py_eq_PStr: "py_eq (PStr s) v = (PStr s = v)"
  by (cases v) auto

lemma eq_str_iff: "eq_str v s = (v = PStr s)"
  by (cases v) auto

text \<open>The code's score as one sum, when both \<^verbatim>\<open>rhVariants\<close> are dictionaries.\<close>

lemma rule_based_score_sum:
  assumes d: "dget_default donor ''rhVariants'' (PDict []) = PDict d"
    and r: "dget_default recipient ''rhVariants'' (PDict []) = PDict r"
    and b: "py_gt (dget_default donor ''totalDonations'' (PNum (PyInt 0))) 5 = Inr b"
  shows "calculate_rule_based_score donor recipient =
     Inr (min 100
       (50
        + (if py_eq (dget donor ''bloodType'') (dget recipient ''bloodType'') then 20 else 0)
        + 3 * int (length (filter (\<lambda>a. truthy (dget d a) \<and> truthy (dget r a))
                             [''C'', ''c'', ''E'', ''e'']))
        + (if truthy (dget recipient ''kell'') \<and> truthy (dget donor ''kell'') then 3 else 0)
        + (if truthy (dget recipient ''duffy'') \<and> truthy (dget donor ''duffy'') then 3 else 0)
        + (if truthy (dget recipient ''kidd'') \<and> truthy (dget donor ''kidd'') then 3 else 0)
        + (if b then 5 else 0)
        + (if eq_str (dget recipient ''urgency'') ''critical''
              \<and> truthy (dget donor ''willingForEmergency'') then 10 else 0)))"
  unfolding calculate_rule_based_score_def Let_def d r antigen_loop_dicts b
  by (simp only: sum.case if_add)

lemma rule_based_score_refines:
  assumes "in_strs (dget donor ''bloodType'') cts"
    and "is_dict (dget_default donor ''rhVariants'' (PDict []))"
    and "is_dict (dget_default recipient ''rhVariants'' (PDict []))"
    and "is_number (dget_default donor ''totalDonations'' (PNum (PyInt 0)))"
  shows "calculate_rule_based_score donor recipient = Inr (reference_rule_score donor recipient)"
proof -
  from assms(2) obtain d where d: "dget_default donor ''rhVariants'' (PDict []) = PDict d"
    by (cases "dget_default donor ''rhVariants'' (PDict [])") (simp_all add: is_dict_def)
  from assms(3) obtain r where r: "dget_default recipient ''rhVariants'' (PDict []) = PDict r"
    by (cases "dget_default recipient ''rhVariants'' (PDict [])") (simp_all add: is_dict_def)
  define b where "b = (total_donations donor > 5)"
  have b: "py_gt (dget_default donor ''totalDonations'' (PNum (PyInt 0))) 5 = Inr b"
    using assms(4)
    by (cases "dget_default donor ''totalDonations'' (PNum (PyInt 0))")
       (simp_all add: is_number_def b_def total_donations_def)
  from in_strs_PStr [OF assms(1)] obtain s where s: "dget donor ''bloodType'' = PStr s"
    by blast
  have same: "py_eq (dget donor ''bloodType'') (dget recipient ''bloodType'')
                = (dget donor ''bloodType'' = dget recipient ''bloodType'')"
    by (simp only: s py_eq_PStr)
  have pres: "(\<lambda>a. rh_present donor a \<and> rh_present recipient a)
                = (\<lambda>a. truthy (dget d a) \<and> truthy (dget r a))"
    by (simp add: rh_present_def d r)
  have conj: "both_have donor recipient f = (truthy (dget recipient f) \<and> truthy (dget donor f))"
    for f by (auto simp: both_have_def)
  have crit: "critical_and_willing donor recipient
                = (eq_str (dget recipient ''urgency'') ''critical''
                    \<and> truthy (dget donor ''willingForEmergency''))"
    by (simp add: critical_and_willing_def eq_str_iff)
  define b1 :: int where
    "b1 = (if py_eq (dget donor ''bloodType'') (dget recipient ''bloodType'') then 20 else 0)"
  define n where
    "n = length (filter (\<lambda>a. truthy (dget d a) \<and> truthy (dget r a)) [''C'', ''c'', ''E'', ''e''])"
  define b2 :: int where
    "b2 = (if truthy (dget recipient ''kell'') \<and> truthy (dget donor ''kell'') then 3 else 0)"
  define b3 :: int where
    "b3 = (if truthy (dget recipient ''duffy'') \<and> truthy (dget donor ''duffy'') then 3 else 0)"
  define b4 :: int where
    "b4 = (if truthy (dget recipient ''kidd'') \<and> truthy (dget donor ''kidd'') then 3 else 0)"
  define b5 :: int where "b5 = (if b then 5 else 0)"
  define b6 :: int where
    "b6 = (if eq_str (dget recipient ''urgency'') ''critical''
              \<and> truthy (dget donor ''willingForEmergency'') then 10 else 0)"
  have nonneg: "0 \<le> b1" "0 \<le> b2" "0 \<le> b3" "0 \<le> b4" "0 \<le> b5" "0 \<le> b6"
    by (simp_all add: b1_def b2_def b3_def b4_def b5_def b6_def)
  have code: "calculate_rule_based_score donor recipient
                = Inr (min 100 (50 + b1 + 3 * int n + b2 + b3 + b4 + b5 + b6))"
    unfolding b1_def n_def b2_def b3_def b4_def b5_def b6_def
    by (rule rule_based_score_sum [OF d r b])
  have ref: "reference_rule_score donor recipient
                = max 0 (min 100 (50 + b1 + 3 * int n + b2 + b3 + b4 + b5 + b6))"
    unfolding reference_rule_score_def pres conj crit same [symmetric] b_def [symmetric]
      b1_def n_def b2_def b3_def b4_def b5_def b6_def
    by (rule refl)
  from nonneg have "max 0 (min 100 (50 + b1 + 3 * int n + b2 + b3 + b4 + b5 + b6))
                      = min 100 (50 + b1 + 3 * int n + b2 + b3 + b4 + b5 + b6)"
    by linarith
  with code ref show ?thesis by simp
qed

lemma exact_match_reference:
  "dget donor ''bloodType'' = dget recipient ''bloodType'' \<Longrightarrow> no_other_bonus donor recipient
     \<Longrightarrow> reference_rule_score donor recipient = 70"
  by (simp add: reference_rule_score_def no_other_bonus_def)

text \<open>
  A blood-type-compatible pair with equal blood types and no other bonus has the
  reference score 70, but the code raises instead of scoring when the recipient's
  \<^verbatim>\<open>rhVariants\<close> is \<^verbatim>\<open>null\<close> (\<^verbatim>\<open>None\<close> has no \<^verbatim>\<open>get\<close>) or the donor's
  \<^verbatim>\<open>totalDonations\<close> is \<^verbatim>\<open>null\<close> or a string (no comparison with 5).
\<close>

theorem rule_based_score_raises_on_untyped_fields:
  "in_strs (dget [(''bloodType'', PStr ''O+'')] ''bloodType'')
      (compatible_types_for [(''bloodType'', PStr ''O+''), (''rhVariants'', PNone)])
   \<and> reference_rule_score [(''bloodType'', PStr ''O+'')]
        [(''bloodType'', PStr ''O+''), (''rhVariants'', PNone)] = 70
   \<and> calculate_rule_based_score [(''bloodType'', PStr ''O+'')]
        [(''bloodType'', PStr ''O+''), (''rhVariants'', PNone)] = Inl AttributeError
   \<and> reference_rule_score [(''bloodType'', PStr ''O+''), (''totalDonations'', PNone)]
        [(''bloodType'', PStr ''O+'')] = 70
   \<and> calculate_rule_based_score [(''bloodType'', PStr ''O+''), (''totalDonations'', PNone)]
        [(''bloodType'', PStr ''O+'')] = Inl TypeError
   \<and> calculate_rule_based_score [(''bloodType'', PStr ''O+''), (''totalDonations'', PStr ''7'')]
        [(''bloodType'', PStr ''O+'')] = Inl TypeError"
  by (simp add: compatible_types_for_def get_compatible_donor_types_def BLOOD_COMPATIBILITY_def
      in_strs_def dget_def dget_default_def reference_rule_score_def rh_present_def
      both_have_def total_donations_def critical_and_willing_def
      calculate_rule_based_score_def as_dict_def Let_def)

text \<open>
  Claim C4, amended. For a donor whose blood type is among the types compatible with the
  recipient, and records whose \<^verbatim>\<open>rhVariants\<close> are dictionaries and whose
  \<^verbatim>\<open>totalDonations\<close> is a number (each when present), \<open>calculate_rule_based_score\<close>
  returns the reference score: 50, plus 20 for equal blood types, plus 3 for each of C,
  c, E, e present in both \<^verbatim>\<open>rhVariants\<close>, plus 3 for each of kell, duffy, kidd present
  in both records, plus 5 for more than five donations, plus 10 for a critical request
  and a donor willing for emergencies, clamped to the range 0 to 100. An exact blood type
  match with no other bonus scores 70.
\<close>

theorem rule_based_score_is_reference:
  assumes "in_strs (dget donor ''bloodType'') (compatible_types_for recipient)"
    and "is_dict (dget_default donor ''rhVariants'' (PDict []))"
    and "is_dict (dget_default recipient ''rhVariants'' (PDict []))"
    and "is_number (dget_default donor ''totalDonations'' (PNum (PyInt 0)))"
  shows "calculate_rule_based_score donor recipient = Inr (reference_rule_score donor recipient)
     \<and> (dget donor ''bloodType'' = dget recipient ''bloodType'' \<and> no_other_bonus donor recipient
          \<longrightarrow> calculate_rule_based_score donor recipient = Inr 70)"
  using rule_based_score_refines [OF assms] exact_match_reference [of donor recipient]
  by simp

theorem rule_based_score_is_reference_witness:
  "calculate_rule_based_score
      [(''bloodType'', PStr ''O+'')] [(''bloodType'', PStr ''O+'')] = Inr 70
   \<and> calculate_rule_based_score
      [(''bloodType'', PStr ''O-''), (''rhVariants'', PDict [(''C'', PBool True), (''e'', PBool True)]),
       (''kell'', PBool True), (''totalDonations'', PNum (PyInt 6)),
       (''willingForEmergency'', PBool True)]
      [(''bloodType'', PStr ''A+''), (''rhVariants'', PDict [(''C'', PBool True)]),
       (''kell'', PBool True), (''urgency'', PStr ''critical'')] = Inr 71"
proof -
  let ?d1 = "[(''bloodType'', PStr ''O+'')]"
  let ?d2 = "[(''bloodType'', PStr ''O-''),
              (''rhVariants'', PDict [(''C'', PBool True), (''e'', PBool True)]),
              (''kell'', PBool True), (''totalDonations'', PNum (PyInt 6)),
              (''willingForEmergency'', PBool True)]"
  let ?r2 = "[(''bloodType'', PStr ''A+''), (''rhVariants'', PDict [(''C'', PBool True)]),
              (''kell'', PBool True), (''urgency'', PStr ''critical'')]"
  have c1: "in_strs (dget ?d1 ''bloodType'') (compatible_types_for ?d1)"
    and c2: "in_strs (dget ?d2 ''bloodType'') (compatible_types_for ?r2)"
    by (simp_all add: compatible_types_for_def get_compatible_donor_types_def
        BLOOD_COMPATIBILITY_def in_strs_def dget_def dget_default_def)
  have t: "is_dict (dget_default ?d1 ''rhVariants'' (PDict []))"
    "is_number (dget_default ?d1 ''totalDonations'' (PNum (PyInt 0)))"
    "is_dict (dget_default ?d2 ''rhVariants'' (PDict []))"
    "is_dict (dget_default ?r2 ''rhVariants'' (PDict []))"
    "is_number (dget_default ?d2 ''totalDonations'' (PNum (PyInt 0)))"
    by (simp_all add: is_dict_def is_number_def dget_default_def)
  have n: "no_other_bonus ?d1 ?d1"
    by (simp add: no_other_bonus_def rh_present_def both_have_def total_donations_def
        critical_and_willing_def dget_def dget_default_def)
  have v: "reference_rule_score ?d2 ?r2 = 71"
    by (simp add: reference_rule_score_def rh_present_def both_have_def total_donations_def
        critical_and_willing_def dget_def dget_default_def)
  from rule_based_score_is_reference [OF c1 t(1) t(1) t(2)] n
  have a: "calculate_rule_based_score ?d1 ?d1 = Inr 70"
    by blast
  from rule_based_score_is_reference [OF c2 t(3) t(4) t(5)] v
  have b: "calculate_rule_based_score ?d2 ?r2 = Inr 71"
    by (simp only:)
  from a b show ?thesis by (rule conjI)
qed

section \<open>Ranking\<close>

lemma match_loop_result:
  "match_loop srv r (compatible_types_for r) ds acc = Inr out
     \<Longrightarrow> out = acc @ matches_in_input_order srv r ds"
proof (induction ds arbitrary: acc)
  case Nil
  then show ?case by (simp add: matches_in_input_order_def)
next
  case (Cons d ds)
  show ?case
  proof (cases "match_donor srv r (compatible_types_for r) d")
    case (Inl e)
    with Cons.prems show ?thesis by simp
  next
    case (Inr res)
    show ?thesis
    proof (cases res)
      case None
      with Inr Cons.prems have "match_loop srv r (compatible_types_for r) ds acc = Inr out"
        by simp
      from Cons.IH [OF this] Inr None show ?thesis
        by (simp add: matches_in_input_order_def map_filter_simps)
    next
      case (Some m)
      with Inr Cons.prems
      have "match_loop srv r (compatible_types_for r) ds (acc @ [m]) = Inr out"
        by simp
      from Cons.IH [OF this] Inr Some show ?thesis
        by (simp add: matches_in_input_order_def map_filter_simps)
    qed
  qed
qed

lemma py_sort_reverse_sorted:
  "sorted_wrt (\<lambda>a b. f a \<ge> f b) (py_sort_reverse f xs)"
proof -
  have "sorted (map f (sort_key f (rev xs)))"
    by (rule sorted_sort_key)
  then have "sorted_wrt (\<lambda>a b. f a \<le> f b) (sort_key f (rev xs))"
    by (simp add: sorted_wrt_map)
  then show ?thesis
    by (simp add: py_sort_reverse_def sorted_wrt_rev)
qed

lemma py_sort_reverse_stable:
  "filter (\<lambda>x. f x = k) (py_sort_reverse f xs) = filter (\<lambda>x. f x = k) xs"
proof -
  have "filter (\<lambda>x. f x = k) (py_sort_reverse f xs)
          = rev (filter (\<lambda>x. f x = k) (sort_key f (rev xs)))"
    by (simp add: py_sort_reverse_def rev_filter)
  also have "\<dots> = rev (filter (\<lambda>x. f x = k) (rev xs))"
    by (simp only: sort_key_stable)
  also have "\<dots> = filter (\<lambda>x. f x = k) xs"
    by (simp add: rev_filter)
  finally show ?thesis .
qed

text \<open>
  Claim C5. Whenever \<^verbatim>\<open>/match\<close> answers a request with a ranking, the matches are in
  non-increasing order of \<open>compatibilityScore\<close>, and for every score the matches with
  that score stand in the order in which their donors stand in the donor list.
\<close>

theorem matches_sorted_stable:
  assumes "match_donors srv (match_request (PDict recipient) donors) = Inr resp"
  shows "sorted_wrt (\<lambda>a b. score_of a \<ge> score_of b) (matches resp)
     \<and> (\<forall>k. filter (\<lambda>m. score_of m = k) (matches resp)
              = filter (\<lambda>m. score_of m = k) (matches_in_input_order srv recipient donors))"
proof -
  from assms obtain appended
    where loop: "match_loop srv recipient (compatible_types_for recipient) donors [] = Inr appended"
      and m: "matches resp = py_sort_reverse (\<lambda>x. num_val (compatibilityScore x)) appended"
    by (auto simp: match_donors_request as_dict_def split: sum.splits)
  from match_loop_result [OF loop]
  have a: "appended = matches_in_input_order srv recipient donors"
    by simp
  have s: "score_of = (\<lambda>x. num_val (compatibilityScore x))"
    by (rule ext) (simp add: score_of_def)
  show ?thesis
    unfolding m s a [symmetric]
    by (intro conjI allI py_sort_reverse_sorted py_sort_reverse_stable)
qed

theorem matches_sorted_stable_witness:
  "\<exists>resp. match_donors (rule_server ''t'')
            (match_request (PDict [(''bloodType'', PStr ''O+'')])
               [PDict [(''id'', PStr ''d1''), (''bloodType'', PStr ''O-'')],
                PDict [(''id'', PStr ''d2''), (''bloodType'', PStr ''O+'')],
                PDict [(''id'', PStr ''d3''), (''bloodType'', PStr ''O+'')]]) = Inr resp
     \<and> map donorId (matches resp) = [PStr ''d2'', PStr ''d3'', PStr ''d1'']
     \<and> map compatibilityScore (matches resp) = [PyInt 70, PyInt 70, PyInt 50]
     \<and> sorted_wrt (\<lambda>a b. score_of a \<ge> score_of b) (matches resp)
     \<and> filter (\<lambda>m. score_of m = 70) (matches resp)
         = filter (\<lambda>m. score_of m = 70)
             (matches_in_input_order (rule_server ''t'') [(''bloodType'', PStr ''O+'')]
               [PDict [(''id'', PStr ''d1''), (''bloodType'', PStr ''O-'')],
                PDict [(''id'', PStr ''d2''), (''bloodType'', PStr ''O+'')],
                PDict [(''id'', PStr ''d3''), (''bloodType'', PStr ''O+'')]])"
proof -
  let ?r = "[(''bloodType'', PStr ''O+'')]"
  let ?ds = "[PDict [(''id'', PStr ''d1''), (''bloodType'', PStr ''O-'')],
              PDict [(''id'', PStr ''d2''), (''bloodType'', PStr ''O+'')],
              PDict [(''id'', PStr ''d3''), (''bloodType'', PStr ''O+'')]]"
  obtain resp where r: "match_donors (rule_server ''t'') (match_request (PDict ?r) ?ds) = Inr resp"
    and i: "map donorId (matches resp) = [PStr ''d2'', PStr ''d3'', PStr ''d1'']"
    and c: "map compatibilityScore (matches resp) = [PyInt 70, PyInt 70, PyInt 50]"
    by (simp add: match_donors_request as_dict_def compatible_types_for_def
        get_compatible_donor_types_def BLOOD_COMPATIBILITY_def in_strs_def dget_def
        dget_default_def match_donor_def check_hard_stops_def check_temporary_deferrals_def
        match_score_def rule_server_def rule_score_def calculate_rule_based_score_def
        py_or_def py_sort_reverse_def Let_def)
  from matches_sorted_stable [OF r]
  have s: "sorted_wrt (\<lambda>a b. score_of a \<ge> score_of b) (matches resp)"
    and f: "filter (\<lambda>m. score_of m = 70) (matches resp)
              = filter (\<lambda>m. score_of m = 70)
                  (matches_in_input_order (rule_server ''t'') ?r ?ds)"
    by blast+
  from r i c s f show ?thesis
    by - (rule exI [of _ resp], (intro conjI; assumption))
qed

section \<open>The range of the score\<close>

lemma clamp_range: "0 \<le> num_val (py_min100 (py_max0 s)) \<and> num_val (py_min100 (py_max0 s)) \<le> 100"
  by (simp add: py_min100_def py_max0_def)

text \<open>\<^verbatim>\<open>/predict\<close> clamps whatever score it computed, and a rejection scores 0.\<close>

lemma predict_score_in_range:
  assumes "predict srv request = Inr resp"
  shows "0 \<le> num_val (score resp) \<and> num_val (score resp) \<le> 100"
proof -
  from assms consider "score resp = PyInt 0" | s where "score resp = py_min100 (py_max0 s)"
    by (auto simp: predict_def Let_def split: sum.splits if_splits)
  then show ?thesis
  proof cases
    case 1
    then show ?thesis by simp
  next
    case 2
    then show ?thesis by (simp only: clamp_range)
  qed
qed

text \<open>
  Claim C3. The score of \<^verbatim>\<open>/match\<close> is not clamped: with a regression model whose
  \<^verbatim>\<open>predict\<close> answers 150, a compatible donor is ranked with \<open>compatibilityScore\<close> 150,
  and with one that answers -5 the score is -500, while \<^verbatim>\<open>/predict\<close> answers 100 and 0
  for the same pair and the same models.
\<close>

theorem match_score_not_clamped:
  "ranked_scores (match_donors (regression_server 150 ''t'')
       (match_request (PDict [(''bloodType'', PStr ''O+'')])
          [PDict [(''bloodType'', PStr ''O+'')]]))
     = Inr [(PyFloat 150, ''high'')]
   \<and> ranked_scores (match_donors (regression_server (- 5) ''t'')
       (match_request (PDict [(''bloodType'', PStr ''O+'')])
          [PDict [(''bloodType'', PStr ''O+'')]]))
     = Inr [(PyFloat (- 500), ''low'')]
   \<and> map_sum id score (predict (regression_server 150 ''t'')
       (predict_request (PDict [(''bloodType'', PStr ''O+'')])
          (PDict [(''bloodType'', PStr ''O+'')])))
     = Inr (PyInt 100)
   \<and> map_sum id score (predict (regression_server (- 5) ''t'')
       (predict_request (PDict [(''bloodType'', PStr ''O+'')])
          (PDict [(''bloodType'', PStr ''O+'')])))
     = Inr (PyInt 0)"
proof -
  let ?p = "[(''bloodType'', PStr ''O+'')]"
  have ok: "in_strs (dget ?p ''bloodType'') (compatible_types_for ?p)"
    by (simp add: compatible_types_for_def get_compatible_donor_types_def
        BLOOD_COMPATIBILITY_def in_strs_def dget_def dget_default_def)
  have fv: "\<exists>v. feature_values ?p ?p = Inr v"
    by (simp add: feature_values_def feature_entries_def blood_type_feature_def blood_types_def
        rh_feature_def urgency_feature_def urgency_levels_def flag_def in_strs_def
        dget_def dget_default_def as_dict_def)
  have ms: "match_score (regression_server x ''t'') ?p ?p
              = Inr (PyFloat (if x \<le> 1 then x * 100 else x))" for x
    using fv by (auto simp: match_score_def regression_server_def prepare_features_def
        model_score_def)
  have ps: "predict_score (regression_server x ''t'') ?p ?p
              = Inr (PyFloat (if x \<le> 1 then x * 100 else x))" for x
    using fv by (auto simp: predict_score_def regression_server_def prepare_features_def
        model_score_def)
  have hs: "check_hard_stops ?p = []"
    by (simp add: check_hard_stops_def dget_def)
  have r1: "round_half_even 1500 = 1500" "round_half_even (- 5000) = - 5000"
    by (simp_all add: round_half_even_def)
  have m: "ranked_scores (match_donors (regression_server x ''t'')
               (match_request (PDict ?p) [PDict ?p]))
             = Inr [(py_round1 (PyFloat (if x \<le> 1 then x * 100 else x)),
                     if (if x \<le> 1 then x * 100 else x) \<ge> 80 then ''high''
                     else if (if x \<le> 1 then x * 100 else x) \<ge> 50 then ''medium'' else ''low'')]"
    for x
    using ok
    by (simp add: ranked_scores_def match_donors_request as_dict_def match_donor_def hs ms
        py_sort_reverse_def Let_def)
  have p: "map_sum id score (predict (regression_server x ''t'')
               (predict_request (PDict ?p) (PDict ?p)))
             = Inr (py_min100 (py_max0 (PyFloat (if x \<le> 1 then x * 100 else x))))" for x
    using ok
    by (simp add: predict_def predict_request_def as_dict_def dget_default_def hs ps Let_def
        compatible_types_for_def)
  show ?thesis
    by (simp add: m p r1 py_min100_def py_max0_def)
qed

section \<open>Failures of the learned path\<close>

text \<open>
  Claim C6. A failure while the feature vector is built is not recovered by
  \<^verbatim>\<open>/predict\<close>: with a model loaded and a recipient whose \<^verbatim>\<open>urgency\<close> is not one of
  the four levels, \<^verbatim>\<open>/predict\<close> ends in the \<^verbatim>\<open>ValueError\<close> of \<^verbatim>\<open>prepare_features\<close>
  (the error response), while \<^verbatim>\<open>/match\<close> on the same pair falls back to the rule-based
  score 70.
\<close>

theorem feature_failure_not_recovered_by_predict:
  "predict (regression_server 80 ''t'')
       (predict_request (PDict [(''bloodType'', PStr ''O+'')])
          (PDict [(''bloodType'', PStr ''O+''), (''urgency'', PStr ''urgent'')]))
     = Inl ValueError
   \<and> ranked_scores (match_donors (regression_server 80 ''t'')
       (match_request (PDict [(''bloodType'', PStr ''O+''), (''urgency'', PStr ''urgent'')])
          [PDict [(''bloodType'', PStr ''O+'')]]))
     = Inr [(PyInt 70, ''medium'')]"
proof -
  let ?d = "[(''bloodType'', PStr ''O+'')]"
  let ?r = "[(''bloodType'', PStr ''O+''), (''urgency'', PStr ''urgent'')]"
  have ok: "in_strs (dget ?d ''bloodType'') (compatible_types_for ?r)"
    by (simp add: compatible_types_for_def get_compatible_donor_types_def
        BLOOD_COMPATIBILITY_def in_strs_def dget_def dget_default_def)
  have fv: "feature_values ?d ?r = Inl ValueError"
    by (simp add: feature_values_def feature_entries_def blood_type_feature_def blood_types_def
        rh_feature_def urgency_feature_def urgency_levels_def flag_def in_strs_def
        dget_def dget_default_def as_dict_def py_int_def)
  have rs: "rule_score ?d ?r = Inr (PyInt 70)"
    by (simp add: rule_score_def calculate_rule_based_score_def dget_def dget_default_def
        as_dict_def Let_def)
  have hs: "check_hard_stops ?d = []"
    by (simp add: check_hard_stops_def dget_def)
  have ps: "predict_score (regression_server 80 ''t'') ?d ?r = Inl ValueError"
    by (simp add: predict_score_def regression_server_def prepare_features_def fv)
  have ms: "match_score (regression_server 80 ''t'') ?d ?r = Inr (PyInt 70)"
    by (simp add: match_score_def regression_server_def prepare_features_def fv rs)
  have a: "predict (regression_server 80 ''t'') (predict_request (PDict ?d) (PDict ?r))
             = Inl ValueError"
    using ok
    by (simp add: predict_def predict_request_def as_dict_def dget_default_def hs ps Let_def
        compatible_types_for_def)
  have b: "ranked_scores (match_donors (regression_server 80 ''t'')
               (match_request (PDict ?r) [PDict ?d]))
             = Inr [(PyInt 70, ''medium'')]"
    using ok
    by (simp add: ranked_scores_def match_donors_request as_dict_def match_donor_def hs ms
        py_sort_reverse_def Let_def)
  from a b show ?thesis by (rule conjI)
qed

section \<open>Repeated requests\<close>

lemma match_score_clock: "match_score (srv\<lparr>clock := t\<rparr>) = match_score srv"
  by (intro ext) (simp add: match_score_def cong: option.case_cong sum.case_cong)

lemma match_donor_clock:
  "match_donor (srv\<lparr>clock := t\<rparr>) r ct d = match_donor srv r ct d"
  unfolding match_donor_def match_score_clock by (rule refl)

lemma match_loop_clock:
  "match_loop (srv\<lparr>clock := t\<rparr>) r ct ds acc = match_loop srv r ct ds acc"
  by (induction ds arbitrary: acc)
     (simp_all add: match_donor_clock cong: sum.case_cong option.case_cong)

text \<open>
  Two readings of the clock give two different answers to the same request, the model
  being the same.
\<close>

theorem timestamp_differs:
  "match_donors (rule_server ''2024-01-01T00:00:00'') (match_request (PDict []) [])
     \<noteq> match_donors (rule_server ''2024-01-01T00:00:01'') (match_request (PDict []) [])"
  by (simp add: match_donors_request as_dict_def rule_server_def)

text \<open>
  Claim C9, amended. The answer of \<^verbatim>\<open>/match\<close> depends on the clock only through its
  \<open>timestamp\<close> field: with the same request and the same model, the answer at clock
  reading \<open>t\<close> is the answer at any other reading with \<open>timestamp\<close> set to \<open>t\<close>, and an
  error answer is the same error.
\<close>

theorem match_donors_same_but_timestamp:
  "match_donors (srv\<lparr>clock := t\<rparr>) request = stamped t (match_donors srv request)"
  by (simp add: match_donors_def stamped_def match_loop_clock Let_def split: sum.splits)

section \<open>Donor entries that cannot be ranked\<close>

lemma match_donor_incompatible:
  "\<not> in_strs (dget d ''bloodType'') ct \<Longrightarrow> match_donor srv r ct (PDict d) = Inr None"
  by (simp add: match_donor_def as_dict_def Let_def)







section \<open>The feature vector\<close>


















section \<open>A donor without a blood type\<close>

lemma dget_absent: "map_of p k = None \<Longrightarrow> dget p k = PNone"
  by (simp add: dget_def)

lemma dget_absent_as_None:
  "map_of p ''bloodType'' = None \<Longrightarrow> dget ((''bloodType'', PNone) # p) k = dget p k"
  by (simp add: dget_def)

lemma dget_default_other_fields:
  "dget_default ((''bloodType'', v) # p) ''rhVariants'' x = dget_default p ''rhVariants'' x"
  "dget_default ((''bloodType'', v) # p) ''totalDonations'' y = dget_default p ''totalDonations'' y"
  by (simp_all add: dget_default_def)

text \<open>The rule-based score reads an absent blood type as \<^verbatim>\<open>None\<close>.\<close>

lemma rule_score_absent_as_None:
  assumes "map_of donor ''bloodType'' = None"
  shows "calculate_rule_based_score ((''bloodType'', PNone) # donor) recipient
           = calculate_rule_based_score donor recipient"
  unfolding calculate_rule_based_score_def dget_absent_as_None [OF assms]
    dget_default_other_fields
  by (rule refl)

text \<open>
  A donor record without \<^verbatim>\<open>bloodType\<close> is not treated as an O+ donor: for an O+
  recipient \<^verbatim>\<open>/predict\<close> rejects it and accepts the O+ donor, and the encoder gives it
  the index 0 where an O+ donor has 6.
\<close>

theorem absent_blood_type_is_not_O_positive:
  "predict (rule_server ''t'')
      (predict_request (PDict []) (PDict [(''bloodType'', PStr ''O+'')]))
     = Inr incompatible_answer
   \<and> predict (rule_server ''t'')
      (predict_request (PDict [(''bloodType'', PStr ''O+'')])
         (PDict [(''bloodType'', PStr ''O+'')]))
     = Inr \<lparr>compatible = True, score = PyInt 70, reason = None,
            score_warnings = Some [], model_used = Some False\<rparr>
   \<and> blood_type_feature [] = Inr (py_int 0)
   \<and> blood_type_feature [(''bloodType'', PStr ''O+'')] = Inr (py_int 6)"
  by (simp add: predict_def predict_request_def incompatible_answer_def as_dict_def
      get_compatible_donor_types_def BLOOD_COMPATIBILITY_def in_strs_def dget_def
      dget_default_def check_hard_stops_def check_temporary_deferrals_def predict_score_def
      rule_server_def rule_score_def calculate_rule_based_score_def py_min100_def py_max0_def
      blood_type_feature_def blood_types_def py_int_def Let_def)

text \<open>
  Claim C10, amended. For a donor record in which \<^verbatim>\<open>bloodType\<close> is absent, no
  operation substitutes O+ and none raises because of the missing field: \<^verbatim>\<open>/predict\<close>
  answers that the blood type is incompatible (score 0), whatever the recipient;
  \<^verbatim>\<open>/match\<close> leaves the donor out of the ranking; the encoder gives the blood type
  index 0; and the rule-based score is the score of the same record with \<^verbatim>\<open>bloodType\<close>
  set to \<^verbatim>\<open>None\<close>.
\<close>

theorem absent_blood_type_is_incompatible:
  assumes "map_of donor ''bloodType'' = None"
  shows "predict srv (predict_request (PDict donor) (PDict recipient)) = Inr incompatible_answer
     \<and> match_donors srv (match_request r (before @ PDict donor # after))
         = match_donors srv (match_request r (before @ after))
     \<and> blood_type_feature donor = Inr (py_int 0)
     \<and> calculate_rule_based_score donor recipient
         = calculate_rule_based_score ((''bloodType'', PNone) # donor) recipient"
proof (intro conjI)
  have no: "\<not> in_strs (dget donor ''bloodType'') ct" for ct
    by (simp add: dget_absent [OF assms] in_strs_iff)
  show "predict srv (predict_request (PDict donor) (PDict recipient)) = Inr incompatible_answer"
    by (simp add: predict_def predict_request_def as_dict_def dget_default_def no
        incompatible_answer_def Let_def)
  show "match_donors srv (match_request r (before @ PDict donor # after))
         = match_donors srv (match_request r (before @ after))"
    by (intro match_donors_drop match_donor_incompatible no)
  show "blood_type_feature donor = Inr (py_int 0)"
    by (simp add: blood_type_feature_def no)
  show "calculate_rule_based_score donor recipient
         = calculate_rule_based_score ((''bloodType'', PNone) # donor) recipient"
    by (rule rule_score_absent_as_None [OF assms, symmetric])
qed

theorem absent_blood_type_is_incompatible_witness:
  "predict (regression_server 90 ''t'')
      (predict_request (PDict [(''age'', PNum (PyInt 40))]) (PDict [(''bloodType'', PStr ''AB+'')]))
     = Inr incompatible_answer
   \<and> match_donors (rule_server ''t'')
       (match_request (PDict [(''bloodType'', PStr ''AB+'')])
          [PDict [(''age'', PNum (PyInt 40))], PDict [(''bloodType'', PStr ''O-'')]])
     = match_donors (rule_server ''t'')
         (match_request (PDict [(''bloodType'', PStr ''AB+'')])
            [PDict [(''bloodType'', PStr ''O-'')]])
   \<and> blood_type_feature [(''age'', PNum (PyInt 40))] = Inr (py_int 0)
   \<and> calculate_rule_based_score [(''age'', PNum (PyInt 40))] [(''bloodType'', PStr ''AB+'')]
       = calculate_rule_based_score [(''bloodType'', PNone), (''age'', PNum (PyInt 40))]
           [(''bloodType'', PStr ''AB+'')]"
proof -
  let ?d = "[(''age'', PNum (PyInt 40))]"
  let ?r = "[(''bloodType'', PStr ''AB+'')]"
  have a: "map_of ?d ''bloodType'' = None"
    by simp
  from absent_blood_type_is_incompatible
         [OF a, of "regression_server 90 ''t''" ?r "PDict ?r" "[]" "[PDict [(''bloodType'', PStr ''O-'')]]"]
  have p: "predict (regression_server 90 ''t'') (predict_request (PDict ?d) (PDict ?r))
             = Inr incompatible_answer"
    and f: "blood_type_feature ?d = Inr (py_int 0)"
    and q: "calculate_rule_based_score ?d ?r
              = calculate_rule_based_score ((''bloodType'', PNone) # ?d) ?r"
    by simp_all
  from absent_blood_type_is_incompatible
         [OF a, of "rule_server ''t''" ?r "PDict ?r" "[]" "[PDict [(''bloodType'', PStr ''O-'')]]"]
  have m: "match_donors (rule_server ''t'')
       (match_request (PDict ?r) [PDict ?d, PDict [(''bloodType'', PStr ''O-'')]])
     = match_donors (rule_server ''t'')
         (match_request (PDict ?r) [PDict [(''bloodType'', PStr ''O-'')]])"
    by simp
  from p m f q show ?thesis
    by (intro conjI)
qed

end
